theory Spec2Isabelle
  imports Main
begin

section \<open>The task service of offer-hub (backend/src/services/task.service.ts)\<close>

text \<open>
  \<open>TaskService\<close> has two writing operations, \<open>createTaskRecord\<close> and
  \<open>updateTaskRating\<close>. Both talk to two collaborators that live outside the service: the
  relational store (tables \<open>projects\<close> and \<open>task_records\<close>, reached through the supabase
  query builder) and the blockchain registrar (\<open>TaskRecordService.recordTask\<close>).
  The operations are embedded as functions from a \<open>world\<close> (the two tables and a trace of
  every external call made so far) to a result and the new world. What the collaborators
  answer is not decided by the service; it is read from an \<open>env\<close>.
\<close>

subsection \<open>Data\<close>

text \<open>A row of \<open>projects\<close> (the columns the service reads or writes).\<close>

record Project =
  p_id :: string
  p_client_id :: string
  p_status :: string
  p_title :: string
  p_updated_at :: string

text \<open>
  A row of \<open>task_records\<close>. A column that is \<open>null\<close> is \<open>None\<close>. The column \<open>id\<close> is
  called \<open>record_id\<close> here.
\<close>

record TaskRecord =
  record_id :: string
  project_id :: string
  freelancer_id :: string
  client_id :: string
  completed :: bool
  outcome_description :: "string option"
  on_chain_tx_hash :: "string option"
  on_chain_task_id :: "string option"
  rating :: "int option"
  rating_comment :: "string option"
  created_at :: string
  updated_at :: string

text \<open>
  The argument \<open>data\<close> of \<open>createTaskRecord\<close>. The function destructures exactly these four
  properties; an optional property that is \<open>undefined\<close> is \<open>None\<close>. The operations below
  take the record scheme, so \<open>data\<close> may carry any further properties.
\<close>

record CreateTaskRecordDTO =
  dto_project_id :: string
  dto_freelancer_id :: string
  dto_completed :: bool
  dto_outcome_description :: "string option"

text \<open>The argument \<open>data\<close> of \<open>updateTaskRating\<close>; \<open>dto_comment = None\<close> is \<open>undefined\<close>.\<close>

record UpdateTaskRatingDTO =
  dto_rating :: int
  dto_comment :: "string option"

record BlockchainTaskResult =
  transactionHash :: string
  taskId :: string

text \<open>
  The object handed to \<open>recordTask\<close>: project_id, freelancer_id, client_id, completed,
  outcome_description.
\<close>

datatype record_task_args = RecordTaskArgs string string string bool string

text \<open>The \<open>error\<close> member of a store response.\<close>

record store_error =
  code :: string
  message :: string

text \<open>
  The exceptions of \<open>@/utils/AppError\<close>. \<open>AppError m 500\<close> is what the specification calls
  InternalError.
\<close>

datatype app_error =
    NotFoundError string
  | ValidationError string
  | AuthorizationError string
  | ConflictError string
  | AppError string nat

text \<open>
  Every call that leaves the service, in the order made: store queries, registrar calls,
  \<open>console.error\<close> lines and \<open>setTimeout\<close> waits (in milliseconds).
\<close>

datatype event =
    SelectProject string
  | SelectTaskRecordByProject string
  | RecordTask record_task_args
  | LogAttemptFailed nat
  | LogRegistrationAbandoned nat
  | Sleep nat
  | InsertTaskRecord string string string bool "string option" "string option" "string option"
  | UpdateProject string string string
  | LogProjectUpdateFailed string
  | SelectTaskRecordById string
  | UpdateTaskRecord string int "string option option" string

record world =
  projects :: "Project list"
  task_records :: "TaskRecord list"
  trace :: "event list"

text \<open>
  What the collaborators answer during one operation. A \<open>fault\<close> is an error the store
  reports for one query whatever the tables hold (a lost connection, a violated
  constraint). \<open>recordTask env n args\<close> is the outcome of the registrar call made after
  \<open>n\<close> earlier calls of the same operation: \<open>None\<close> when it throws. \<open>generated_id\<close> and
  \<open>db_now\<close> are the column defaults the store fills in on insert, \<open>now_iso\<close> is
  \<open>new Date().toISOString()\<close>.
\<close>

record env =
  select_project_fault :: "store_error option"
  select_existing_fault :: "store_error option"
  recordTask :: "nat \<Rightarrow> record_task_args \<Rightarrow> BlockchainTaskResult option"
  insert_fault :: "store_error option"
  update_project_fault :: "store_error option"
  select_record_fault :: "store_error option"
  update_record_fault :: "store_error option"
  generated_id :: string
  db_now :: string
  now_iso :: string


subsection \<open>The store\<close>

text \<open>
  Modelled from the spec: the Record Store Adapter (the supabase client of
  \<open>@/lib/supabase/supabase\<close>, which is not part of the service). A query answers with
  \<open>{data, error}\<close>, of which exactly one is non-null: \<open>Data row\<close> or \<open>Error e\<close>. A point
  lookup (\<open>.single()\<close>) answers with the row when exactly one row matches and with the
  "no rows" error, whose code is \<open>PGRST116\<close>, when none does. The store answers with the
  same code when more than one row matches. A fault is reported instead of either.
\<close>

datatype 'a response = Data 'a | Error store_error

definition no_rows_error :: store_error where
  "no_rows_error =
     \<lparr>code = ''PGRST116'', message = ''JSON object requested, multiple (or no) rows returned''\<rparr>"

fun single :: "store_error option \<Rightarrow> 'a list \<Rightarrow> 'a response" where
  "single (Some e) rows = Error e"
| "single None [r] = Data r"
| "single None rows = Error no_rows_error"

definition emit :: "event \<Rightarrow> world \<Rightarrow> world" where
  "emit e w = w\<lparr>trace := trace w @ [e]\<rparr>"

subsection \<open>createTaskRecord\<close>

definition maxRetries :: nat where
  "maxRetries = 3"

text \<open>
  The retry loop of lines 70 to 93, started with \<open>retryCount = 0\<close>. Each turn makes one
  registrar call; a call that throws increments \<open>retryCount\<close>, so \<open>retryCount\<close> is also the
  number of calls made before this one.
\<close>

function blockchain_retry ::
  "env \<Rightarrow> record_task_args \<Rightarrow> nat \<Rightarrow> world \<Rightarrow> BlockchainTaskResult option \<times> world" where
  "blockchain_retry env args retryCount w =
     (if retryCount < maxRetries then
        (let w1 = emit (RecordTask args) w in
         case recordTask env retryCount args of
           Some blockchainResult \<Rightarrow> (Some blockchainResult, w1)
         | None \<Rightarrow>
             (let retryCount' = retryCount + 1;
                  w2 = emit (LogAttemptFailed retryCount') w1
              in if retryCount' \<ge> maxRetries
                 then (None, emit (LogRegistrationAbandoned maxRetries) w2)
                 else blockchain_retry env args retryCount'
                        (emit (Sleep (2 ^ retryCount' * 1000)) w2)))
      else (None, w))"
  by pat_completeness auto
termination
  by (relation "measure (\<lambda>(env, args, retryCount, w). maxRetries - retryCount)") auto

declare blockchain_retry.simps [simp del]

text \<open>
  Lines 95 to 132: the insert, then the update of the project's status, whose failure is
  logged and swallowed. The insert is \<open>insertTaskRecord(fields) -> TaskRecord\<close> of the
  Record Store Adapter: unless it reports a fault, the store appends one row holding the
  given fields, its own \<open>id\<close>, \<open>created_at\<close> and \<open>updated_at\<close>, and null in \<open>rating\<close> and
  \<open>rating_comment\<close>, and answers with that row. The update of the project writes
  \<open>status\<close> and \<open>updated_at\<close> of every row with the given id.
\<close>

definition insert_and_finish ::
  "env \<Rightarrow> 'a CreateTaskRecordDTO_scheme \<Rightarrow> string \<Rightarrow> BlockchainTaskResult option \<Rightarrow> world
     \<Rightarrow> (app_error + TaskRecord) \<times> world" where
  "insert_and_finish env data clientId blockchainResult w3 =
     (let pid = dto_project_id data;
          tx = map_option transactionHash blockchainResult;
          tid = map_option taskId blockchainResult;
          w4 = emit (InsertTaskRecord pid (dto_freelancer_id data) clientId
                      (dto_completed data) (dto_outcome_description data) tx tid) w3
      in case insert_fault env of
           Some insertError \<Rightarrow>
             (Inl (AppError (''Failed to create task record: '' @ message insertError) 500), w4)
         | None \<Rightarrow>
             (let taskRecord =
                    \<lparr>record_id = generated_id env,
                     project_id = pid,
                     freelancer_id = dto_freelancer_id data,
                     client_id = clientId,
                     completed = dto_completed data,
                     outcome_description = dto_outcome_description data,
                     on_chain_tx_hash = tx,
                     on_chain_task_id = tid,
                     rating = None,
                     rating_comment = None,
                     created_at = db_now env,
                     updated_at = db_now env\<rparr>;
                  w5 = w4\<lparr>task_records := task_records w4 @ [taskRecord]\<rparr>;
                  newProjectStatus = (if dto_completed data then ''completed'' else ''cancelled'');
                  w6 = emit (UpdateProject pid newProjectStatus (now_iso env)) w5
              in case update_project_fault env of
                   Some updateError \<Rightarrow>
                     (Inr taskRecord, emit (LogProjectUpdateFailed (message updateError)) w6)
                 | None \<Rightarrow>
                     (Inr taskRecord,
                      w6\<lparr>projects :=
                           map (\<lambda>p. if p_id p = pid
                                     then p\<lparr>p_status := newProjectStatus,
                                            p_updated_at := now_iso env\<rparr>
                                     else p)
                               (projects w6)\<rparr>)))"

text \<open>Lines 25 to 133. The checks of lines 28 to 63, the retry loop, then the writes.\<close>

definition createTaskRecord ::
  "env \<Rightarrow> 'a CreateTaskRecordDTO_scheme \<Rightarrow> string \<Rightarrow> world \<Rightarrow> (app_error + TaskRecord) \<times> world" where
  "createTaskRecord env data clientId w0 =
     (let pid = dto_project_id data;
          w1 = emit (SelectProject pid) w0
      in case single (select_project_fault env) (filter (\<lambda>p. p_id p = pid) (projects w1)) of
           Error projectError \<Rightarrow> (Inl (NotFoundError ''Project not found''), w1)
         | Data project \<Rightarrow>
             if p_status project \<noteq> ''in_progress'' then
               (Inl (ValidationError
                  (''Project must be in 'in_progress' status to record task outcome. Current status: ''
                     @ p_status project)), w1)
             else if p_client_id project \<noteq> clientId then
               (Inl (AuthorizationError ''Only the project client can record task outcomes''), w1)
             else
               (let w2 = emit (SelectTaskRecordByProject pid) w1
                in case single (select_existing_fault env)
                          (filter (\<lambda>t. project_id t = pid) (task_records w2)) of
                     Data existingRecord \<Rightarrow>
                       (Inl (ConflictError ''Task record already exists for this project''), w2)
                   | Error existingError \<Rightarrow>
                       if code existingError \<noteq> ''PGRST116'' then
                         (Inl (AppError
                            (''Database error checking existing records: ''
                               @ message existingError) 500), w2)
                       else
                         (let (blockchainResult, w3) =
                                blockchain_retry env
                                  (RecordTaskArgs pid (dto_freelancer_id data) clientId
                                     (dto_completed data)
                                     (case dto_outcome_description data of
                                        Some d \<Rightarrow> d | None \<Rightarrow> []))
                                  0 w2
                          in insert_and_finish env data clientId blockchainResult w3)))"

subsection \<open>updateTaskRating\<close>

text \<open>
  \<open>String.prototype.trim\<close> removes white space and line terminators from both ends. A
  \<open>char\<close> is a code unit below 256; the code units of that range that \<open>trim\<close> removes
  are TAB, LF, VT, FF, CR, SPACE and NO-BREAK SPACE.
\<close>

definition is_white_space :: "char \<Rightarrow> bool" where
  "is_white_space c = (of_char c \<in> {9, 10, 11, 12, 13, 32, 160 :: nat})"

definition trim :: "string \<Rightarrow> string" where
  "trim s = rev (dropWhile is_white_space (rev (dropWhile is_white_space s)))"

text \<open>
  Lines 240 to 243: \<open>updateData.rating_comment\<close>. The outer \<open>None\<close> is a key that is not
  set, \<open>Some None\<close> is the key set to \<open>null\<close>. In the source \<open>comment && ...\<close> is false
  for the empty string, which the first test covers.
\<close>

definition normalize_comment :: "string option \<Rightarrow> string option option" where
  "normalize_comment comment =
     (case comment of
        None \<Rightarrow> None
      | Some c \<Rightarrow> Some (if c \<noteq> [] \<and> length (trim c) > 0 then Some (trim c) else None))"

text \<open>The row after \<open>.update(updateData)\<close>: only the keys present in \<open>updateData\<close> are written.\<close>

definition apply_update :: "int \<Rightarrow> string option option \<Rightarrow> string \<Rightarrow> TaskRecord \<Rightarrow> TaskRecord" where
  "apply_update r c ts t =
     (case c of
        None \<Rightarrow> t\<lparr>rating := Some r, updated_at := ts\<rparr>
      | Some c' \<Rightarrow> t\<lparr>rating := Some r, updated_at := ts, rating_comment := c'\<rparr>)"

text \<open>
  Modelled from the spec: \<open>updateTaskRecord(id, fields) -> TaskRecord\<close> of the Record Store
  Adapter, as \<open>.update(..).eq("id", ..).select().single()\<close>. The store rejects the request,
  writing nothing, unless exactly one row is affected.
\<close>

definition update_single ::
  "store_error option \<Rightarrow> string \<Rightarrow> (TaskRecord \<Rightarrow> TaskRecord) \<Rightarrow> TaskRecord list
     \<Rightarrow> TaskRecord response \<times> TaskRecord list" where
  "update_single fault rid f rows =
     (case single fault (map f (filter (\<lambda>t. record_id t = rid) rows)) of
        Data r \<Rightarrow> (Data r, map (\<lambda>t. if record_id t = rid then f t else t) rows)
      | Error e \<Rightarrow> (Error e, rows))"

text \<open>Lines 202 to 257.\<close>

definition updateTaskRating ::
  "env \<Rightarrow> string \<Rightarrow> 'a UpdateTaskRatingDTO_scheme \<Rightarrow> string \<Rightarrow> world
     \<Rightarrow> (app_error + TaskRecord) \<times> world" where
  "updateTaskRating env recordId data clientId w0 =
     (let w1 = emit (SelectTaskRecordById recordId) w0
      in case single (select_record_fault env)
                (filter (\<lambda>t. record_id t = recordId) (task_records w1)) of
           Error fetchError \<Rightarrow>
             if code fetchError = ''PGRST116'' then
               (Inl (NotFoundError ''Task record not found''), w1)
             else
               (Inl (AppError
                  (''Database error: ''
                     @ (if message fetchError = [] then ''Unknown error''
                        else message fetchError)) 500), w1)
         | Data taskRecord \<Rightarrow>
             if client_id taskRecord \<noteq> clientId then
               (Inl (AuthorizationError ''Only the project client can rate the task''), w1)
             else if rating taskRecord \<noteq> None then
               (Inl (ConflictError ''Rating has already been set and cannot be changed''), w1)
             else if \<not> completed taskRecord then
               (Inl (ValidationError ''Only completed tasks can be rated''), w1)
             else
               (let c = normalize_comment (dto_comment data);
                    w2 = emit (UpdateTaskRecord recordId (dto_rating data) c (now_iso env)) w1
                in case update_single (update_record_fault env) recordId
                          (apply_update (dto_rating data) c (now_iso env)) (task_records w2) of
                     (Error updateError, rows) \<Rightarrow>
                       (Inl (AppError
                          (''Failed to update task rating: '' @ message updateError) 500),
                        w2\<lparr>task_records := rows\<rparr>)
                   | (Data updatedRecord, rows) \<Rightarrow>
                       (Inr updatedRecord, w2\<lparr>task_records := rows\<rparr>)))"

subsection \<open>Example inputs\<close>

text \<open>
  The example of the specification: project \<open>P1\<close> of client \<open>C1\<close>, in progress, and a
  registrar that throws on every call. \<open>ex_record\<close> is the row that \<open>createTaskRecord\<close>
  then inserts.
\<close>

definition ex_env :: env where
  "ex_env = \<lparr>select_project_fault = None, select_existing_fault = None,
             recordTask = (\<lambda>n args. None), insert_fault = None,
             update_project_fault = None, select_record_fault = None,
             update_record_fault = None, generated_id = ''T1'',
             db_now = ''2024-01-01T00:00:00Z'', now_iso = ''2024-01-02T00:00:00Z''\<rparr>"

definition ex_project :: Project where
  "ex_project = \<lparr>p_id = ''P1'', p_client_id = ''C1'', p_status = ''in_progress'',
                 p_title = ''Logo'', p_updated_at = ''2023-12-31T00:00:00Z''\<rparr>"

definition ex_world :: world where
  "ex_world = \<lparr>projects = [ex_project], task_records = [], trace = []\<rparr>"

definition ex_data :: CreateTaskRecordDTO where
  "ex_data = \<lparr>dto_project_id = ''P1'', dto_freelancer_id = ''F1'', dto_completed = True,
              dto_outcome_description = None\<rparr>"

definition ex_args :: record_task_args where
  "ex_args = RecordTaskArgs ''P1'' ''F1'' ''C1'' True []"

definition ex_record :: TaskRecord where
  "ex_record = \<lparr>record_id = ''T1'', project_id = ''P1'', freelancer_id = ''F1'',
                client_id = ''C1'', completed = True, outcome_description = None,
                on_chain_tx_hash = None, on_chain_task_id = None, rating = None,
                rating_comment = None, created_at = ''2024-01-01T00:00:00Z'',
                updated_at = ''2024-01-01T00:00:00Z''\<rparr>"

text \<open>The world after \<open>createTaskRecord ex_env ex_data ''C1'' ex_world\<close>.\<close>

definition ex_world_created :: world where
  "ex_world_created =
     \<lparr>projects = [ex_project\<lparr>p_status := ''completed'',
                               p_updated_at := ''2024-01-02T00:00:00Z''\<rparr>],
      task_records = [ex_record],
      trace = [SelectProject ''P1'', SelectTaskRecordByProject ''P1'',
               RecordTask ex_args, LogAttemptFailed 1, Sleep 2000,
               RecordTask ex_args, LogAttemptFailed 2, Sleep 4000,
               RecordTask ex_args, LogAttemptFailed 3, LogRegistrationAbandoned 3,
               InsertTaskRecord ''P1'' ''F1'' ''C1'' True None None None,
               UpdateProject ''P1'' ''completed'' ''2024-01-02T00:00:00Z'']\<rparr>"

text \<open>A \<open>data\<close> object that carries a \<open>client_id\<close> property of its own.\<close>

record CreateTaskRecordDTO_with_client = CreateTaskRecordDTO +
  dto_client_id :: string

definition ex_data_with_client :: CreateTaskRecordDTO_with_client where
  "ex_data_with_client =
     \<lparr>dto_project_id = ''P1'', dto_freelancer_id = ''F1'', dto_completed = True,
      dto_outcome_description = None, dto_client_id = ''C9''\<rparr>"






text \<open>Store errors other than "no rows": a statement timeout.\<close>

definition ex_timeout :: store_error where
  "ex_timeout = \<lparr>code = ''57014'', message = ''canceling statement due to statement timeout''\<rparr>"

definition ex_env_project_fault :: env where
  "ex_env_project_fault = ex_env\<lparr>select_project_fault := Some ex_timeout\<rparr>"


text \<open>A project that is not in progress.\<close>

definition ex_open_project :: Project where
  "ex_open_project = \<lparr>p_id = ''P1'', p_client_id = ''C1'', p_status = ''open'',
                      p_title = ''Logo'', p_updated_at = ''2023-12-31T00:00:00Z''\<rparr>"

definition ex_world_open :: world where
  "ex_world_open = \<lparr>projects = [ex_open_project], task_records = [], trace = []\<rparr>"

text \<open>Records for \<open>updateTaskRating\<close>: another client's project, a rated and an unfinished task.\<close>

definition ex_other_record :: TaskRecord where
  "ex_other_record = \<lparr>record_id = ''T0'', project_id = ''P0'', freelancer_id = ''F1'',
                client_id = ''C1'', completed = True, outcome_description = Some ''done'',
                on_chain_tx_hash = Some ''0xabc'', on_chain_task_id = Some ''7'', rating = None,
                rating_comment = None, created_at = ''2023-06-01T00:00:00Z'',
                updated_at = ''2023-06-01T00:00:00Z''\<rparr>"

definition ex_rated_record :: TaskRecord where
  "ex_rated_record = \<lparr>record_id = ''T1'', project_id = ''P1'', freelancer_id = ''F1'',
                client_id = ''C1'', completed = True, outcome_description = None,
                on_chain_tx_hash = None, on_chain_task_id = None, rating = Some 5,
                rating_comment = Some ''Great work'', created_at = ''2024-01-01T00:00:00Z'',
                updated_at = ''2024-01-02T00:00:00Z''\<rparr>"

definition ex_unfinished_record :: TaskRecord where
  "ex_unfinished_record = \<lparr>record_id = ''T2'', project_id = ''P2'', freelancer_id = ''F1'',
                client_id = ''C1'', completed = False, outcome_description = None,
                on_chain_tx_hash = None, on_chain_task_id = None, rating = None,
                rating_comment = None, created_at = ''2024-01-01T00:00:00Z'',
                updated_at = ''2024-01-01T00:00:00Z''\<rparr>"

definition ex_store :: world where
  "ex_store = \<lparr>projects = [ex_project], task_records = [ex_other_record, ex_record],
               trace = []\<rparr>"

definition ex_store_rated :: world where
  "ex_store_rated =
     \<lparr>projects = [ex_project], task_records = [ex_other_record, ex_rated_record],
      trace = [SelectTaskRecordById ''T1'',
               UpdateTaskRecord ''T1'' 5 (Some (Some ''Great work'')) ''2024-01-02T00:00:00Z'']\<rparr>"

definition ex_store_unfinished :: world where
  "ex_store_unfinished =
     \<lparr>projects = [ex_project], task_records = [ex_unfinished_record], trace = []\<rparr>"

definition ex_rating :: UpdateTaskRatingDTO where
  "ex_rating = \<lparr>dto_rating = 5, dto_comment = Some ''  Great work ''\<rparr>"

definition ex_rating_blank :: UpdateTaskRatingDTO where
  "ex_rating_blank = \<lparr>dto_rating = 4, dto_comment = Some ''   ''\<rparr>"

definition ex_rating_plain :: UpdateTaskRatingDTO where
  "ex_rating_plain = \<lparr>dto_rating = 1, dto_comment = None\<rparr>"

section \<open>Properties\<close>

subsection \<open>The store and the retry loop\<close>

lemma single_Data_iff: "single fault rows = Data r \<longleftrightarrow> fault = None \<and> rows = [r]"
  by (cases "(fault, rows)" rule: single.cases) auto

lemma filter_single_split:
  assumes "filter P xs = [t]"
  shows "\<exists>pre post. xs = pre @ t # post \<and> filter P pre = [] \<and> filter P post = [] \<and> P t"
proof -
  from assms obtain us vs where
    "xs = us @ t # vs" "\<forall>u\<in>set us. \<not> P u" "P t" "[] = filter P vs"
    by (auto simp: filter_eq_Cons_iff)
  then show ?thesis
    by (intro exI[of _ us] exI[of _ vs]) (simp add: filter_empty_conv empty_filter_conv)
qed

lemma map_if_filter_empty:
  "filter P xs = [] \<Longrightarrow> map (\<lambda>x. if P x then f x else x) xs = xs"
  by (induction xs) (auto split: if_splits)

text \<open>
  A registrar that throws on every call is called three times, with a wait of 2000 ms
  after the first failure and of 4000 ms after the second, and the loop ends without a
  result.
\<close>

lemma blockchain_retry_all_fail:
  assumes "\<And>n. recordTask env n args = None"
  shows "blockchain_retry env args 0 w =
     (None, w\<lparr>trace := trace w @
                [RecordTask args, LogAttemptFailed 1, Sleep 2000,
                 RecordTask args, LogAttemptFailed 2, Sleep 4000,
                 RecordTask args, LogAttemptFailed 3, LogRegistrationAbandoned 3]\<rparr>)"
  using assms
  by (simp add: blockchain_retry.simps[of _ _ 0] blockchain_retry.simps[of _ _ "Suc 0"]
        blockchain_retry.simps[of _ _ "Suc (Suc 0)"] maxRetries_def emit_def Let_def
        numeral_2_eq_2 numeral_3_eq_3)

text \<open>The loop writes to neither table, whatever the registrar answers.\<close>

lemma blockchain_retry_tables:
  "projects (snd (blockchain_retry env args n w)) = projects w \<and>
   task_records (snd (blockchain_retry env args n w)) = task_records w"
proof (induction env args n w rule: blockchain_retry.induct)
  case (1 env args retryCount w)
  show ?case
    apply (subst blockchain_retry.simps)
    apply (subst (2) blockchain_retry.simps)
    using "1.IH"
    apply (simp add: Let_def emit_def split: option.splits)
    done
qed

subsection \<open>What a call that returns a record has done\<close>

lemma createTaskRecord_outcome:
  assumes "createTaskRecord env data clientId w = (res, w')"
  shows "(\<exists>e. res = Inl e \<and> task_records w' = task_records w \<and> projects w' = projects w)
       \<or> (\<exists>r p. res = Inr r \<and> task_records w' = task_records w @ [r] \<and>
                 client_id r = clientId \<and> project_id r = dto_project_id data \<and>
                 filter (\<lambda>p. p_id p = dto_project_id data) (projects w) = [p] \<and>
                 p_status p = ''in_progress'' \<and> p_client_id p = clientId \<and>
                 (\<exists>e. single (select_existing_fault env)
                        (filter (\<lambda>t. project_id t = dto_project_id data) (task_records w))
                      = Error e))"
  using assms
    blockchain_retry_tables[of env
      "RecordTaskArgs (dto_project_id data) (dto_freelancer_id data) clientId
         (dto_completed data) (case dto_outcome_description data of Some d \<Rightarrow> d | None \<Rightarrow> [])"
      0
      "emit (SelectTaskRecordByProject (dto_project_id data))
         (emit (SelectProject (dto_project_id data)) w)"]
  by (auto simp: createTaskRecord_def insert_and_finish_def Let_def emit_def single_Data_iff
           split: response.splits if_splits prod.splits option.splits)

text \<open>
  Whatever the registrar answers, a call that passes the checks and whose insert the
  store accepts returns a record.
\<close>

lemma createTaskRecord_returns:
  assumes "select_project_fault env = None"
    and "filter (\<lambda>p. p_id p = dto_project_id data) (projects w) = [project]"
    and "p_status project = ''in_progress''"
    and "p_client_id project = clientId"
    and "select_existing_fault env = None"
    and "filter (\<lambda>t. project_id t = dto_project_id data) (task_records w) = []"
    and "insert_fault env = None"
  shows "\<exists>r w'. createTaskRecord env data clientId w = (Inr r, w')"
  using assms
  by (simp add: createTaskRecord_def insert_and_finish_def Let_def emit_def no_rows_error_def
           split: prod.splits option.splits)

lemma filter_distinct_key:
  "distinct (map f xs) \<Longrightarrow> length (filter (\<lambda>x. f x = k) xs) \<le> 1"
  by (induction xs) (force simp: filter_empty_conv image_iff)+

lemma single_Error_distinct:
  assumes "distinct (map f xs)" and "single None (filter (\<lambda>x. f x = k) xs) = Error e"
  shows "k \<notin> f ` set xs"
proof -
  from filter_distinct_key[OF assms(1), of k]
  have "filter (\<lambda>x. f x = k) xs = [] \<or> (\<exists>x. filter (\<lambda>x. f x = k) xs = [x])"
    by (cases "filter (\<lambda>x. f x = k) xs") auto
  with assms(2) have "filter (\<lambda>x. f x = k) xs = []" by auto
  then show ?thesis by (auto simp: filter_empty_conv)
qed

text \<open>
  With a store that answers the duplicate check truthfully, \<open>createTaskRecord\<close> keeps
  the rule of one record per project.
\<close>

lemma createTaskRecord_one_record_per_project:
  assumes inv: "distinct (map project_id (task_records w))"
    and honest: "select_existing_fault env = None"
    and call: "createTaskRecord env data clientId w = (res, w')"
  shows "distinct (map project_id (task_records w'))"
proof -
  from createTaskRecord_outcome[OF call] show ?thesis
  proof (elim disjE exE conjE)
    fix e assume "task_records w' = task_records w"
    with inv show ?thesis by simp
  next
    fix r p e
    assume app: "task_records w' = task_records w @ [r]"
      and pid: "project_id r = dto_project_id data"
      and chk: "single (select_existing_fault env)
                  (filter (\<lambda>t. project_id t = dto_project_id data) (task_records w)) = Error e"
    from single_Error_distinct[OF inv chk[unfolded honest]]
    have "dto_project_id data \<notin> project_id ` set (task_records w)" .
    with inv app pid show ?thesis by simp
  qed
qed

lemma updateTaskRating_success:
  assumes "updateTaskRating env recordId data clientId w = (Inr r, w')"
  shows "\<exists>t. filter (\<lambda>t. record_id t = recordId) (task_records w) = [t] \<and>
             client_id t = clientId \<and> rating t = None \<and> completed t \<and>
             r = apply_update (dto_rating data) (normalize_comment (dto_comment data))
                   (now_iso env) t \<and>
             w' = w\<lparr>trace := trace w @ [SelectTaskRecordById recordId,
                       UpdateTaskRecord recordId (dto_rating data)
                         (normalize_comment (dto_comment data)) (now_iso env)],
                    task_records := map (\<lambda>t. if record_id t = recordId
                        then apply_update (dto_rating data)
                               (normalize_comment (dto_comment data)) (now_iso env) t
                        else t) (task_records w)\<rparr>"
  using assms
  by (auto simp: updateTaskRating_def update_single_def Let_def emit_def single_Data_iff
           split: response.splits if_splits prod.splits)

subsection \<open>trim\<close>

lemma rev_dropWhile_takeWhile:
  "rev (dropWhile P (rev xs)) @ rev (takeWhile P (rev xs)) = xs"
  by (metis rev_append rev_rev_ident takeWhile_dropWhile_id)

lemma dropWhile_all_iff: "(\<forall>x\<in>set (dropWhile P xs). P x) \<longleftrightarrow> (\<forall>x\<in>set xs. P x)"
  by (induction xs) auto

text \<open>\<open>trim\<close> gives the empty string exactly on strings of white space.\<close>

lemma trim_blank_iff: "trim s = [] \<longleftrightarrow> (\<forall>c\<in>set s. is_white_space c)"
  by (simp add: trim_def dropWhile_eq_Nil_conv dropWhile_all_iff)

text \<open>\<open>trim\<close> cuts white space, and nothing else, from the two ends.\<close>

lemma trim_decomposition:
  "\<exists>pre post. s = pre @ trim s @ post \<and>
     (\<forall>c\<in>set pre. is_white_space c) \<and> (\<forall>c\<in>set post. is_white_space c)"
proof -
  let ?a = "takeWhile is_white_space s"
  let ?m = "dropWhile is_white_space s"
  let ?b = "takeWhile is_white_space (rev ?m)"
  have "?m = trim s @ rev ?b"
    unfolding trim_def by (rule rev_dropWhile_takeWhile[symmetric])
  then have "s = ?a @ trim s @ rev ?b"
    by (metis takeWhile_dropWhile_id)
  moreover have "\<forall>c\<in>set ?a. is_white_space c" by (auto dest: set_takeWhileD)
  moreover have "\<forall>c\<in>set (rev ?b). is_white_space c" by (auto dest: set_takeWhileD)
  ultimately show ?thesis by blast
qed

text \<open>What \<open>trim\<close> leaves neither starts nor ends with white space.\<close>

lemma trim_ends:
  assumes "trim s \<noteq> []"
  shows "\<not> is_white_space (hd (trim s)) \<and> \<not> is_white_space (last (trim s))"
proof -
  let ?m = "dropWhile is_white_space s"
  let ?d = "dropWhile is_white_space (rev ?m)"
  have ne: "?d \<noteq> []" using assms by (simp add: trim_def)
  then have l: "\<not> is_white_space (hd ?d)" by (rule hd_dropWhile)
  have mne: "?m \<noteq> []"
  proof
    assume "?m = []"
    then have "?d = []" by (simp only: rev.simps dropWhile.simps)
    with ne show False ..
  qed
  then have h: "\<not> is_white_space (hd ?m)" by (rule hd_dropWhile)
  have t: "trim s = rev ?d" by (simp add: trim_def)
  then have "last (trim s) = hd ?d" using ne by (simp add: last_rev)
  moreover have "hd (trim s) = hd ?m"
  proof -
    have "?m = rev ?d @ rev (takeWhile is_white_space (rev ?m))"
      by (rule rev_dropWhile_takeWhile[symmetric])
    then have "hd ?m = hd (rev ?d)" using ne by (metis hd_append2 rev_is_Nil_conv)
    then show ?thesis by (simp only: t)
  qed
  ultimately show ?thesis using l h by simp
qed

subsection \<open>The examples, evaluated\<close>


lemma ex_create_with_client:
  "createTaskRecord ex_env ex_data_with_client ''C1'' ex_world = (Inr ex_record, ex_world_created)"
  by (simp add: createTaskRecord_def insert_and_finish_def ex_env_def ex_data_with_client_def
        ex_world_def ex_world_created_def ex_args_def ex_project_def ex_record_def Let_def
        emit_def no_rows_error_def blockchain_retry_all_fail)

lemma ex_update:
  "updateTaskRating ex_env ''T1'' ex_rating ''C1'' ex_store = (Inr ex_rated_record, ex_store_rated)"
  by (simp add: updateTaskRating_def update_single_def ex_env_def ex_rating_def ex_store_def
        ex_store_rated_def ex_record_def ex_rated_record_def ex_other_record_def Let_def emit_def
        apply_update_def normalize_comment_def trim_def is_white_space_def)

lemma ex_update_blank:
  "fst (updateTaskRating ex_env ''T1'' ex_rating_blank ''C1'' ex_store) =
     Inr (ex_record\<lparr>rating := Some 4, updated_at := ''2024-01-02T00:00:00Z''\<rparr>)"
  by (simp add: updateTaskRating_def update_single_def ex_env_def ex_rating_blank_def
        ex_store_def ex_record_def ex_other_record_def Let_def emit_def
        apply_update_def normalize_comment_def trim_def is_white_space_def)

lemma ex_update_plain:
  "fst (updateTaskRating ex_env ''T1'' ex_rating_plain ''C1'' ex_store) =
     Inr (ex_record\<lparr>rating := Some 1, updated_at := ''2024-01-02T00:00:00Z''\<rparr>)"
  by (simp add: updateTaskRating_def update_single_def ex_env_def ex_rating_plain_def
        ex_store_def ex_record_def ex_other_record_def Let_def emit_def
        apply_update_def normalize_comment_def)

section \<open>The claims\<close>

subsection \<open>createTaskRecord\<close>

text \<open>
  C1. When the checks of \<open>createTaskRecord\<close> pass and every registrar call throws, the
  registrar is called exactly three times, the service waits 2000 ms before the second
  call and 4000 ms before the third, and the call still returns a record: the row it
  appended to \<open>task_records\<close>, whose \<open>on_chain_tx_hash\<close> and \<open>on_chain_task_id\<close> are
  null. The trace lists every external call of the operation, in order.
\<close>

theorem createTaskRecord_registrar_always_fails:
  assumes fails: "\<And>n a. recordTask env n a = None"
    and found: "select_project_fault env = None"
      "filter (\<lambda>p. p_id p = dto_project_id data) (projects w) = [project]"
    and status: "p_status project = ''in_progress''"
    and client: "p_client_id project = clientId"
    and fresh: "select_existing_fault env = None"
      "filter (\<lambda>t. project_id t = dto_project_id data) (task_records w) = []"
    and ins: "insert_fault env = None"
    and args: "args = RecordTaskArgs (dto_project_id data) (dto_freelancer_id data) clientId
                 (dto_completed data)
                 (case dto_outcome_description data of Some d \<Rightarrow> d | None \<Rightarrow> [])"
  shows "\<exists>r w'. createTaskRecord env data clientId w = (Inr r, w') \<and>
           on_chain_tx_hash r = None \<and> on_chain_task_id r = None \<and>
           task_records w' = task_records w @ [r] \<and>
           trace w' = trace w @
             [SelectProject (dto_project_id data),
              SelectTaskRecordByProject (dto_project_id data),
              RecordTask args, LogAttemptFailed 1, Sleep 2000,
              RecordTask args, LogAttemptFailed 2, Sleep 4000,
              RecordTask args, LogAttemptFailed 3, LogRegistrationAbandoned 3,
              InsertTaskRecord (dto_project_id data) (dto_freelancer_id data) clientId
                (dto_completed data) (dto_outcome_description data) None None,
              UpdateProject (dto_project_id data)
                (if dto_completed data then ''completed'' else ''cancelled'') (now_iso env)]
             @ (case update_project_fault env of
                  None \<Rightarrow> [] | Some e \<Rightarrow> [LogProjectUpdateFailed (message e)])"
  unfolding createTaskRecord_def insert_and_finish_def
  using found status client fresh ins args
  by (simp add: Let_def emit_def no_rows_error_def blockchain_retry_all_fail[OF fails]
           split: option.splits)

theorem createTaskRecord_registrar_always_fails_witness:
  "select_project_fault ex_env = None \<and>
   filter (\<lambda>p. p_id p = dto_project_id ex_data) (projects ex_world) = [ex_project] \<and>
   p_status ex_project = ''in_progress'' \<and>
   p_client_id ex_project = ''C1'' \<and>
   select_existing_fault ex_env = None \<and>
   filter (\<lambda>t. project_id t = dto_project_id ex_data) (task_records ex_world) = [] \<and>
   insert_fault ex_env = None \<and>
   (\<exists>r w'. createTaskRecord ex_env ex_data ''C1'' ex_world = (Inr r, w') \<and>
      on_chain_tx_hash r = None \<and> on_chain_task_id r = None \<and>
      task_records w' = task_records ex_world @ [r] \<and>
      trace w' = trace ex_world @
        [SelectProject (dto_project_id ex_data),
         SelectTaskRecordByProject (dto_project_id ex_data),
         RecordTask ex_args, LogAttemptFailed 1, Sleep 2000,
         RecordTask ex_args, LogAttemptFailed 2, Sleep 4000,
         RecordTask ex_args, LogAttemptFailed 3, LogRegistrationAbandoned 3,
         InsertTaskRecord (dto_project_id ex_data) (dto_freelancer_id ex_data) ''C1''
           (dto_completed ex_data) (dto_outcome_description ex_data) None None,
         UpdateProject (dto_project_id ex_data)
           (if dto_completed ex_data then ''completed'' else ''cancelled'') (now_iso ex_env)]
        @ (case update_project_fault ex_env of
             None \<Rightarrow> [] | Some e \<Rightarrow> [LogProjectUpdateFailed (message e)]))"
proof -
  have f: "\<And>n a. recordTask ex_env n a = None" by (simp add: ex_env_def)
  have h1: "select_project_fault ex_env = None" by (simp add: ex_env_def)
  have h2: "filter (\<lambda>p. p_id p = dto_project_id ex_data) (projects ex_world) = [ex_project]"
    by (simp add: ex_data_def ex_world_def ex_project_def)
  have h3: "p_status ex_project = ''in_progress''" by (simp add: ex_project_def)
  have h4: "p_client_id ex_project = ''C1''" by (simp add: ex_project_def)
  have h5: "select_existing_fault ex_env = None" by (simp add: ex_env_def)
  have h6: "filter (\<lambda>t. project_id t = dto_project_id ex_data) (task_records ex_world) = []"
    by (simp add: ex_world_def)
  have h7: "insert_fault ex_env = None" by (simp add: ex_env_def)
  have h8: "ex_args = RecordTaskArgs (dto_project_id ex_data) (dto_freelancer_id ex_data) ''C1''
                 (dto_completed ex_data)
                 (case dto_outcome_description ex_data of Some d \<Rightarrow> d | None \<Rightarrow> [])"
    by (simp add: ex_args_def ex_data_def)
  from h1 h2 h3 h4 h5 h6 h7
    createTaskRecord_registrar_always_fails[OF f h1 h2 h3 h4 h5 h6 h7 h8]
  show ?thesis by (intro conjI)
qed

text \<open>
  C4. For a project that the lookup finds and whose status is not \<open>in_progress\<close>,
  \<open>createTaskRecord\<close> throws a ValidationError whose message ends with the project's
  status. The only external call is the lookup of the project: the registrar is not
  called, nothing is inserted, and the \<open>projects\<close> table is as before.
\<close>

theorem createTaskRecord_wrong_status:
  assumes "select_project_fault env = None"
    and "filter (\<lambda>p. p_id p = dto_project_id data) (projects w) = [project]"
    and "p_status project \<noteq> ''in_progress''"
  shows "createTaskRecord env data clientId w =
     (Inl (ValidationError
        (''Project must be in 'in_progress' status to record task outcome. Current status: ''
           @ p_status project)),
      w\<lparr>trace := trace w @ [SelectProject (dto_project_id data)]\<rparr>)"
  using assms by (simp add: createTaskRecord_def Let_def emit_def)

theorem createTaskRecord_wrong_status_witness:
  "select_project_fault ex_env = None \<and>
   filter (\<lambda>p. p_id p = dto_project_id ex_data) (projects ex_world_open) = [ex_open_project] \<and>
   p_status ex_open_project \<noteq> ''in_progress'' \<and>
   createTaskRecord ex_env ex_data ''C1'' ex_world_open =
     (Inl (ValidationError
        (''Project must be in 'in_progress' status to record task outcome. Current status: ''
           @ p_status ex_open_project)),
      ex_world_open\<lparr>trace := trace ex_world_open @ [SelectProject (dto_project_id ex_data)]\<rparr>)"
proof -
  have h1: "select_project_fault ex_env = None" by (simp add: ex_env_def)
  have h2: "filter (\<lambda>p. p_id p = dto_project_id ex_data) (projects ex_world_open)
              = [ex_open_project]"
    by (simp add: ex_data_def ex_world_open_def ex_open_project_def)
  have h3: "p_status ex_open_project \<noteq> ''in_progress''" by (simp add: ex_open_project_def)
  from h1 h2 h3 createTaskRecord_wrong_status[OF h1 h2 h3]
  show ?thesis by (intro conjI)
qed

text \<open>
  C6, as amended. For a project that the lookup finds and a requester who is not its
  client, \<open>createTaskRecord\<close> throws before any registrar call: an AuthorizationError
  when the project is in progress, and the ValidationError of the status check, which
  comes first, when it is not.
\<close>

theorem createTaskRecord_not_client:
  assumes "select_project_fault env = None"
    and "filter (\<lambda>p. p_id p = dto_project_id data) (projects w) = [project]"
    and "p_client_id project \<noteq> clientId"
  shows "createTaskRecord env data clientId w =
     (Inl (if p_status project = ''in_progress''
           then AuthorizationError ''Only the project client can record task outcomes''
           else ValidationError
             (''Project must be in 'in_progress' status to record task outcome. Current status: ''
                @ p_status project)),
      w\<lparr>trace := trace w @ [SelectProject (dto_project_id data)]\<rparr>)"
  using assms by (simp add: createTaskRecord_def Let_def emit_def)

theorem createTaskRecord_not_client_witness:
  "select_project_fault ex_env = None \<and>
   filter (\<lambda>p. p_id p = dto_project_id ex_data) (projects ex_world) = [ex_project] \<and>
   p_client_id ex_project \<noteq> ''C2'' \<and>
   createTaskRecord ex_env ex_data ''C2'' ex_world =
     (Inl (AuthorizationError ''Only the project client can record task outcomes''),
      ex_world\<lparr>trace := trace ex_world @ [SelectProject (dto_project_id ex_data)]\<rparr>)"
proof -
  have h1: "select_project_fault ex_env = None" by (simp add: ex_env_def)
  have h2: "filter (\<lambda>p. p_id p = dto_project_id ex_data) (projects ex_world) = [ex_project]"
    by (simp add: ex_data_def ex_world_def ex_project_def)
  have h3: "p_client_id ex_project \<noteq> ''C2''" by (simp add: ex_project_def)
  have h4: "p_status ex_project = ''in_progress''" by (simp add: ex_project_def)
  from createTaskRecord_not_client[OF h1 h2 h3]
  have "createTaskRecord ex_env ex_data ''C2'' ex_world =
     (Inl (AuthorizationError ''Only the project client can record task outcomes''),
      ex_world\<lparr>trace := trace ex_world @ [SelectProject (dto_project_id ex_data)]\<rparr>)"
    by (simp add: h4)
  with h1 h2 h3 show ?thesis by (intro conjI)
qed

text \<open>
  C6 as stated fails: project \<open>P1\<close> is \<open>open\<close>, its client is \<open>C1\<close>, the requester is
  \<open>C2\<close>, and the call throws a ValidationError, not an AuthorizationError.
\<close>

theorem createTaskRecord_not_client_counterexample:
  "map p_id (projects ex_world_open) = [''P1''] \<and>
   map p_client_id (projects ex_world_open) = [''C1''] \<and>
   fst (createTaskRecord ex_env ex_data ''C2'' ex_world_open) =
     Inl (ValidationError
       ''Project must be in 'in_progress' status to record task outcome. Current status: open'')"
  by (simp add: createTaskRecord_def ex_env_def ex_data_def ex_world_open_def
        ex_open_project_def Let_def emit_def)




text \<open>
  C7. The claim asks that a store failure on the project lookup surface as an AppError
  with status 500. The code throws NotFoundError for every error of that lookup: here
  project \<open>P1\<close> exists and the lookup times out.
\<close>

theorem createTaskRecord_lookup_failure:
  "map p_id (projects ex_world) = [''P1''] \<and>
   select_project_fault ex_env_project_fault = Some ex_timeout \<and>
   fst (createTaskRecord ex_env_project_fault ex_data ''C1'' ex_world) =
     Inl (NotFoundError ''Project not found'')"
  by (simp add: createTaskRecord_def ex_env_project_fault_def ex_env_def ex_data_def
        ex_world_def ex_project_def Let_def emit_def)

text \<open>
  C9. Whatever \<open>createTaskRecord\<close> returns, it either throws and leaves both tables as
  they were, or appends exactly one record, the one it returns, whose \<open>client_id\<close> is the
  requester, who is the client of the project. \<open>data\<close> is any object with the four
  properties the function reads; no other property of it reaches the store.
\<close>

theorem createTaskRecord_client_id:
  assumes "createTaskRecord env data clientId w = (res, w')"
  shows "(\<exists>e. res = Inl e \<and> task_records w' = task_records w)
       \<or> (\<exists>r p. res = Inr r \<and> task_records w' = task_records w @ [r] \<and>
                 client_id r = clientId \<and>
                 filter (\<lambda>p. p_id p = dto_project_id data) (projects w) = [p] \<and>
                 p_client_id p = clientId)"
  using createTaskRecord_outcome[OF assms] by blast

theorem createTaskRecord_client_id_witness:
  "createTaskRecord ex_env ex_data_with_client ''C1'' ex_world = (Inr ex_record, ex_world_created)
   \<and> dto_client_id ex_data_with_client = ''C9''
   \<and> ((\<exists>e::app_error. Inr ex_record = Inl e \<and> task_records ex_world_created = task_records ex_world)
       \<or> (\<exists>r p. (Inr ex_record :: app_error + TaskRecord) = Inr r \<and>
                 task_records ex_world_created = task_records ex_world @ [r] \<and>
                 client_id r = ''C1'' \<and>
                 filter (\<lambda>p. p_id p = dto_project_id ex_data_with_client) (projects ex_world) = [p] \<and>
                 p_client_id p = ''C1''))"
proof -
  have c: "dto_client_id ex_data_with_client = ''C9''"
    by (simp add: ex_data_with_client_def)
  from ex_create_with_client c createTaskRecord_client_id[OF ex_create_with_client]
  show ?thesis by (intro conjI)
qed

subsection \<open>updateTaskRating\<close>

text \<open>
  C3, as amended. For a record that the lookup finds and whose rating is set,
  \<open>updateTaskRating\<close> throws whatever rating and comment it is given: a ConflictError
  when the requester is the record's client, an AuthorizationError when not. The only
  external call is the lookup, so the stored rating, like every other column, is as
  before.
\<close>

theorem updateTaskRating_already_rated:
  assumes "select_record_fault env = None"
    and "filter (\<lambda>t. record_id t = recordId) (task_records w) = [t]"
    and "rating t = Some r0"
  shows "updateTaskRating env recordId data clientId w =
     (Inl (if client_id t = clientId
           then ConflictError ''Rating has already been set and cannot be changed''
           else AuthorizationError ''Only the project client can rate the task''),
      w\<lparr>trace := trace w @ [SelectTaskRecordById recordId]\<rparr>)"
  using assms by (simp add: updateTaskRating_def Let_def emit_def)

theorem updateTaskRating_already_rated_witness:
  "select_record_fault ex_env = None \<and>
   filter (\<lambda>t. record_id t = ''T1'') (task_records ex_store_rated) = [ex_rated_record] \<and>
   rating ex_rated_record = Some 5 \<and>
   client_id ex_rated_record = ''C1'' \<and>
   dto_rating ex_rating = 5 \<and>
   updateTaskRating ex_env ''T1'' ex_rating ''C1'' ex_store_rated =
     (Inl (ConflictError ''Rating has already been set and cannot be changed''),
      ex_store_rated\<lparr>trace := trace ex_store_rated @ [SelectTaskRecordById ''T1'']\<rparr>)"
proof -
  have h1: "select_record_fault ex_env = None" by (simp add: ex_env_def)
  have h2: "filter (\<lambda>t. record_id t = ''T1'') (task_records ex_store_rated) = [ex_rated_record]"
    by (simp add: ex_store_rated_def ex_rated_record_def ex_other_record_def)
  have h3: "rating ex_rated_record = Some 5" by (simp add: ex_rated_record_def)
  have h4: "client_id ex_rated_record = ''C1''" by (simp add: ex_rated_record_def)
  have h5: "dto_rating ex_rating = 5" by (simp add: ex_rating_def)
  from updateTaskRating_already_rated[OF h1 h2 h3, of ex_rating "''C1''"]
  have "updateTaskRating ex_env ''T1'' ex_rating ''C1'' ex_store_rated =
     (Inl (ConflictError ''Rating has already been set and cannot be changed''),
      ex_store_rated\<lparr>trace := trace ex_store_rated @ [SelectTaskRecordById ''T1'']\<rparr>)"
    by (simp add: h4)
  with h1 h2 h3 h4 h5 show ?thesis by (intro conjI)
qed

text \<open>
  C3 as stated fails: the record \<open>T1\<close> of client \<open>C1\<close> is rated 5, the requester is \<open>C2\<close>,
  and the call throws an AuthorizationError, not a ConflictError.
\<close>

theorem updateTaskRating_already_rated_counterexample:
  "map record_id (task_records ex_store_rated) = [''T0'', ''T1''] \<and>
   map rating (task_records ex_store_rated) = [None, Some 5] \<and>
   fst (updateTaskRating ex_env ''T1'' ex_rating ''C2'' ex_store_rated) =
     Inl (AuthorizationError ''Only the project client can rate the task'')"
  by (simp add: updateTaskRating_def ex_env_def ex_store_rated_def ex_rated_record_def
        ex_other_record_def Let_def emit_def)

text \<open>
  C5, as amended. For a record that the lookup finds, with \<open>completed = false\<close> and no
  rating, \<open>updateTaskRating\<close> throws a ValidationError when the requester is the record's
  client and an AuthorizationError when not; nothing is written.
\<close>

theorem updateTaskRating_not_completed:
  assumes "select_record_fault env = None"
    and "filter (\<lambda>t. record_id t = recordId) (task_records w) = [t]"
    and "rating t = None"
    and "\<not> completed t"
  shows "updateTaskRating env recordId data clientId w =
     (Inl (if client_id t = clientId
           then ValidationError ''Only completed tasks can be rated''
           else AuthorizationError ''Only the project client can rate the task''),
      w\<lparr>trace := trace w @ [SelectTaskRecordById recordId]\<rparr>)"
  using assms by (simp add: updateTaskRating_def Let_def emit_def)

theorem updateTaskRating_not_completed_witness:
  "select_record_fault ex_env = None \<and>
   filter (\<lambda>t. record_id t = ''T2'') (task_records ex_store_unfinished) = [ex_unfinished_record] \<and>
   rating ex_unfinished_record = None \<and>
   \<not> completed ex_unfinished_record \<and>
   client_id ex_unfinished_record = ''C1'' \<and>
   updateTaskRating ex_env ''T2'' ex_rating ''C1'' ex_store_unfinished =
     (Inl (ValidationError ''Only completed tasks can be rated''),
      ex_store_unfinished\<lparr>trace := trace ex_store_unfinished @ [SelectTaskRecordById ''T2'']\<rparr>)"
proof -
  have h1: "select_record_fault ex_env = None" by (simp add: ex_env_def)
  have h2: "filter (\<lambda>t. record_id t = ''T2'') (task_records ex_store_unfinished)
              = [ex_unfinished_record]"
    by (simp add: ex_store_unfinished_def ex_unfinished_record_def)
  have h3: "rating ex_unfinished_record = None" by (simp add: ex_unfinished_record_def)
  have h4: "\<not> completed ex_unfinished_record" by (simp add: ex_unfinished_record_def)
  have h5: "client_id ex_unfinished_record = ''C1''" by (simp add: ex_unfinished_record_def)
  from updateTaskRating_not_completed[OF h1 h2 h3 h4, of ex_rating "''C1''"]
  have "updateTaskRating ex_env ''T2'' ex_rating ''C1'' ex_store_unfinished =
     (Inl (ValidationError ''Only completed tasks can be rated''),
      ex_store_unfinished\<lparr>trace := trace ex_store_unfinished @ [SelectTaskRecordById ''T2'']\<rparr>)"
    by (simp add: h5)
  with h1 h2 h3 h4 h5 show ?thesis by (intro conjI)
qed

text \<open>
  C5 as stated fails: the record \<open>T2\<close> of client \<open>C1\<close> is not completed and not rated, the
  requester is \<open>C2\<close>, and the call throws an AuthorizationError, not a ValidationError.
\<close>

theorem updateTaskRating_not_completed_counterexample:
  "map record_id (task_records ex_store_unfinished) = [''T2''] \<and>
   map completed (task_records ex_store_unfinished) = [False] \<and>
   map rating (task_records ex_store_unfinished) = [None] \<and>
   map client_id (task_records ex_store_unfinished) = [''C1''] \<and>
   fst (updateTaskRating ex_env ''T2'' ex_rating ''C2'' ex_store_unfinished) =
     Inl (AuthorizationError ''Only the project client can rate the task'')"
  by (simp add: updateTaskRating_def ex_env_def ex_store_unfinished_def
        ex_unfinished_record_def Let_def emit_def)

text \<open>
  C8. After a call of \<open>updateTaskRating\<close> that returns, the row with the given id is the
  returned record, and its \<open>rating_comment\<close> is: the stored value from before when no
  comment was given; null when the comment is blank after trimming; the trimmed comment
  otherwise.
\<close>

theorem updateTaskRating_comment:
  assumes "updateTaskRating env recordId data clientId w = (Inr r, w')"
    and "filter (\<lambda>t. record_id t = recordId) (task_records w) = [t]"
  shows "rating_comment r =
           (case dto_comment data of
              None \<Rightarrow> rating_comment t
            | Some c \<Rightarrow> if trim c = [] then None else Some (trim c))
         \<and> filter (\<lambda>t. record_id t = recordId) (task_records w') = [r]"
proof -
  let ?f = "apply_update (dto_rating data) (normalize_comment (dto_comment data)) (now_iso env)"
  from updateTaskRating_success[OF assms(1)] assms(2)
  have r: "r = ?f t"
    and w': "task_records w' =
               map (\<lambda>t. if record_id t = recordId then ?f t else t) (task_records w)"
    by auto
  have id: "record_id (apply_update a b c x) = record_id x" for a b c x
    by (simp add: apply_update_def split: option.splits)
  have "filter (\<lambda>t. record_id t = recordId) (task_records w') =
        map ?f (filter (\<lambda>t. record_id t = recordId) (task_records w))"
    unfolding w' by (induction "task_records w") (auto simp: id filter_map o_def)
  then have "filter (\<lambda>t. record_id t = recordId) (task_records w') = [r]"
    using assms(2) r by simp
  moreover have "rating_comment r =
           (case dto_comment data of
              None \<Rightarrow> rating_comment t
            | Some c \<Rightarrow> if trim c = [] then None else Some (trim c))"
    unfolding r
    by (auto simp: apply_update_def normalize_comment_def trim_def split: option.splits)
  ultimately show ?thesis by simp
qed

theorem updateTaskRating_comment_witness:
  "updateTaskRating ex_env ''T1'' ex_rating ''C1'' ex_store = (Inr ex_rated_record, ex_store_rated) \<and>
   filter (\<lambda>t. record_id t = ''T1'') (task_records ex_store) = [ex_record] \<and>
   dto_comment ex_rating = Some ''  Great work '' \<and>
   trim ''  Great work '' = ''Great work'' \<and>
   rating_comment ex_rated_record = Some ''Great work'' \<and>
   filter (\<lambda>t. record_id t = ''T1'') (task_records ex_store_rated) = [ex_rated_record] \<and>
   dto_comment ex_rating_blank = Some ''   '' \<and>
   map rating_comment
     (filter (\<lambda>t. record_id t = ''T1'')
        (task_records (snd (updateTaskRating ex_env ''T1'' ex_rating_blank ''C1'' ex_store))))
     = [None] \<and>
   dto_comment ex_rating_plain = None \<and>
   map rating_comment
     (filter (\<lambda>t. record_id t = ''T1'')
        (task_records (snd (updateTaskRating ex_env ''T1'' ex_rating_plain ''C1'' ex_store))))
     = [rating_comment ex_record]"
proof -
  have h2: "filter (\<lambda>t. record_id t = ''T1'') (task_records ex_store) = [ex_record]"
    by (simp add: ex_store_def ex_record_def ex_other_record_def)
  have c: "dto_comment ex_rating = Some ''  Great work ''" by (simp add: ex_rating_def)
  have t: "trim ''  Great work '' = ''Great work''" by (simp add: trim_def is_white_space_def)
  from updateTaskRating_comment[OF ex_update h2]
  have 1: "rating_comment ex_rated_record = Some ''Great work''"
    and 2: "filter (\<lambda>t. record_id t = ''T1'') (task_records ex_store_rated) = [ex_rated_record]"
    by (simp_all add: c t)
  have cb: "dto_comment ex_rating_blank = Some ''   ''" by (simp add: ex_rating_blank_def)
  have tb: "trim ''   '' = []" by (simp add: trim_def is_white_space_def)
  have "updateTaskRating ex_env ''T1'' ex_rating_blank ''C1'' ex_store =
          (Inr (ex_record\<lparr>rating := Some 4, updated_at := ''2024-01-02T00:00:00Z''\<rparr>),
           snd (updateTaskRating ex_env ''T1'' ex_rating_blank ''C1'' ex_store))"
    using ex_update_blank by (metis prod.collapse)
  from updateTaskRating_comment[OF this h2]
  have 3: "map rating_comment
     (filter (\<lambda>t. record_id t = ''T1'')
        (task_records (snd (updateTaskRating ex_env ''T1'' ex_rating_blank ''C1'' ex_store))))
     = [None]"
    by (simp add: cb tb)
  have cp: "dto_comment ex_rating_plain = None" by (simp add: ex_rating_plain_def)
  have "updateTaskRating ex_env ''T1'' ex_rating_plain ''C1'' ex_store =
          (Inr (ex_record\<lparr>rating := Some 1, updated_at := ''2024-01-02T00:00:00Z''\<rparr>),
           snd (updateTaskRating ex_env ''T1'' ex_rating_plain ''C1'' ex_store))"
    using ex_update_plain by (metis prod.collapse)
  from updateTaskRating_comment[OF this h2]
  have 4: "map rating_comment
     (filter (\<lambda>t. record_id t = ''T1'')
        (task_records (snd (updateTaskRating ex_env ''T1'' ex_rating_plain ''C1'' ex_store))))
     = [rating_comment ex_record]"
    by (simp add: cp)
  from ex_update h2 c t 1 2 cb 3 cp 4 show ?thesis by (intro conjI)
qed

text \<open>
  C10. A call of \<open>updateTaskRating\<close> that returns leaves \<open>projects\<close> as it was and
  replaces one row of \<open>task_records\<close>, the one with the given id, by the returned record;
  the rows before and after it are as they were. The returned record differs from the
  replaced row in \<open>rating\<close> and \<open>updated_at\<close>, and in \<open>rating_comment\<close> only when a comment
  was given.
\<close>

theorem updateTaskRating_frame:
  assumes "updateTaskRating env recordId data clientId w = (Inr r, w')"
  shows "projects w' = projects w \<and>
         (\<exists>pre t post.
            task_records w = pre @ t # post \<and> task_records w' = pre @ r # post \<and>
            record_id t = recordId \<and>
            record_id r = record_id t \<and> project_id r = project_id t \<and>
            freelancer_id r = freelancer_id t \<and> client_id r = client_id t \<and>
            completed r = completed t \<and> outcome_description r = outcome_description t \<and>
            on_chain_tx_hash r = on_chain_tx_hash t \<and> on_chain_task_id r = on_chain_task_id t \<and>
            created_at r = created_at t \<and>
            rating r = Some (dto_rating data) \<and> updated_at r = now_iso env \<and>
            rating_comment r =
              (case dto_comment data of
                 None \<Rightarrow> rating_comment t
               | Some c \<Rightarrow> if trim c = [] then None else Some (trim c)))"
proof -
  let ?f = "apply_update (dto_rating data) (normalize_comment (dto_comment data)) (now_iso env)"
  let ?P = "\<lambda>t. record_id t = recordId"
  from updateTaskRating_success[OF assms] obtain t where
    t: "filter ?P (task_records w) = [t]" and r: "r = ?f t"
    and w': "w' = w\<lparr>trace := trace w @ [SelectTaskRecordById recordId,
                       UpdateTaskRecord recordId (dto_rating data)
                         (normalize_comment (dto_comment data)) (now_iso env)],
                    task_records := map (\<lambda>t. if ?P t then ?f t else t) (task_records w)\<rparr>"
    by blast
  from filter_single_split[OF t] obtain pre post where
    split: "task_records w = pre @ t # post" "filter ?P pre = []" "filter ?P post = []" "?P t"
    by blast
  have "task_records w' = pre @ r # post"
    using split r by (simp add: w' map_if_filter_empty)
  moreover have "projects w' = projects w" by (simp add: w')
  moreover have "rating_comment r =
              (case dto_comment data of
                 None \<Rightarrow> rating_comment t
               | Some c \<Rightarrow> if trim c = [] then None else Some (trim c))"
    unfolding r
    by (auto simp: apply_update_def normalize_comment_def trim_def split: option.splits)
  moreover have "record_id r = record_id t \<and> project_id r = project_id t \<and>
            freelancer_id r = freelancer_id t \<and> client_id r = client_id t \<and>
            completed r = completed t \<and> outcome_description r = outcome_description t \<and>
            on_chain_tx_hash r = on_chain_tx_hash t \<and> on_chain_task_id r = on_chain_task_id t \<and>
            created_at r = created_at t \<and>
            rating r = Some (dto_rating data) \<and> updated_at r = now_iso env"
    unfolding r by (simp add: apply_update_def split: option.splits)
  ultimately show ?thesis using split by blast
qed

theorem updateTaskRating_frame_witness:
  "updateTaskRating ex_env ''T1'' ex_rating ''C1'' ex_store = (Inr ex_rated_record, ex_store_rated) \<and>
   projects ex_store_rated = projects ex_store \<and>
   (\<exists>pre t post.
      task_records ex_store = pre @ t # post \<and>
      task_records ex_store_rated = pre @ ex_rated_record # post \<and>
      record_id t = ''T1'' \<and>
      record_id ex_rated_record = record_id t \<and> project_id ex_rated_record = project_id t \<and>
      freelancer_id ex_rated_record = freelancer_id t \<and>
      client_id ex_rated_record = client_id t \<and>
      completed ex_rated_record = completed t \<and>
      outcome_description ex_rated_record = outcome_description t \<and>
      on_chain_tx_hash ex_rated_record = on_chain_tx_hash t \<and>
      on_chain_task_id ex_rated_record = on_chain_task_id t \<and>
      created_at ex_rated_record = created_at t \<and>
      rating ex_rated_record = Some (dto_rating ex_rating) \<and>
      updated_at ex_rated_record = now_iso ex_env \<and>
      rating_comment ex_rated_record =
        (case dto_comment ex_rating of
           None \<Rightarrow> rating_comment t
         | Some c \<Rightarrow> if trim c = [] then None else Some (trim c)))"
proof -
  note frame = updateTaskRating_frame[OF ex_update]
  from ex_update frame[THEN conjunct1] frame[THEN conjunct2]
  show ?thesis by (intro conjI)
qed

end
